theory Spec2Isabelle
  imports Main "HOL-Library.Sublist" "HOL-Library.AList"
begin

section \<open>Values, thrown values and the heap\<close>

text \<open>
  The module under study is \<^verbatim>\<open>src/docs/fntags.js\<close>. JavaScript values are a datatype.
  Strings are lists of characters. \<open>Object c\<close> is any other object, \<open>c\<close> being the
  \<^verbatim>\<open>name\<close> of its \<^verbatim>\<open>constructor\<close> (\<open>None\<close> when the object has no constructor, as
  \<^verbatim>\<open>Object.create(null)\<close>). \<open>Function c f\<close> is a function: \<open>c\<close> is the name of its
  constructor in the same way (\<^verbatim>\<open>Function\<close> for an ordinary function, \<^verbatim>\<open>AsyncFunction\<close> for
  an async one, \<^verbatim>\<open>GeneratorFunction\<close> for a generator) and \<open>f\<close>, of the type parameter
  \<open>'f\<close>, is what it does when called. The source text of a constructor is taken not
  to match \<^verbatim>\<open>/object HTML.+Element/\<close>. A number is an integer or \<open>NaN\<close>: only its type and its
  truthiness are ever inspected.
\<close>

datatype 'f jsval =
    Undefined | Null | Boolean bool | Number int | NaN | String string
  | Function "string option" 'f | Node nat | Object "string option"

fun typeof :: "'f jsval \<Rightarrow> string" where
  "typeof Undefined = ''undefined''"
| "typeof Null = ''object''"
| "typeof (Boolean b) = ''boolean''"
| "typeof (Number n) = ''number''"
| "typeof NaN = ''number''"
| "typeof (String s) = ''string''"
| "typeof (Function c f) = ''function''"
| "typeof (Node n) = ''object''"
| "typeof (Object c) = ''object''"

fun truthy :: "'f jsval \<Rightarrow> bool" where
  "truthy Undefined = False"
| "truthy Null = False"
| "truthy (Boolean b) = b"
| "truthy (Number n) = (n \<noteq> 0)"
| "truthy NaN = False"
| "truthy (String s) = (s \<noteq> [])"
| "truthy (Function c f) = True"
| "truthy (Node n) = True"
| "truthy (Object c) = True"

text \<open>
  What a \<^verbatim>\<open>throw\<close> propagates. Every \<^verbatim>\<open>throw\<close> statement of the module has the form
  \<^verbatim>\<open>throw new Error(msg).stack\<close>: the thrown value is the \<^verbatim>\<open>stack\<close> property of the
  error (a string, or \<^verbatim>\<open>undefined\<close> on an engine without it), written \<open>ErrorStack msg\<close>.
  Exceptions raised by the runtime inside the module's functions are error objects.
\<close>

datatype thrown =
    ErrorStack string
  | TypeError string
  | HierarchyRequestError


datatype nkind = Text string | Element string

record dnode =
  kind :: nkind
  attrs :: "(string \<times> string) list"
  absolute :: bool
  kids :: "nat list"
  fn_element_info :: "nat option"

text \<open>A binding handle is the object \<^verbatim>\<open>{ current: ... }\<close> that \<^verbatim>\<open>fnbind\<close> creates
  (line 50); \<open>handle_info\<close> is the id of its own \<^verbatim>\<open>_fn_element_info\<close> tag.\<close>

record handle =
  current :: nat
  handle_info :: "nat option"

text \<open>
  Arguments that travel between the proxy, the observers and the user's functions:
  a backing object (the proxy's target), a proxy, any other value, or an array.
  An object is the list of its own enumerable data properties, in insertion order
  (keys are taken not to be array indices, which JavaScript would list first).
\<close>

datatype arg = ObjRef nat | ProxyRef nat | Val "unit jsval" | Array "arg list"

type_synonym obj = "(string \<times> arg) list"

text \<open>
  The heap: everything the user's functions can reach. Nodes, handles and backing
  objects are addressed by natural numbers (\<open>next_node\<close>, \<open>next_handle\<close>,
  \<open>next_object\<close> are the first unused addresses). In a node, \<open>absolute\<close> is the
  truthiness of the element's own \<^verbatim>\<open>absolute\<close> property, \<open>fn_element_info\<close> the id held
  by its \<^verbatim>\<open>_fn_element_info\<close> tag, \<open>kids\<close> its child nodes in order; a node's parent is
  the node that lists it. \<open>lastId\<close> is the module-level counter (line 150),
  \<open>pathname\<close> is \<^verbatim>\<open>window.location.pathname\<close>.
\<close>

record heap =
  nodes :: "nat \<Rightarrow> dnode"
  next_node :: nat
  handles :: "nat \<Rightarrow> handle"
  next_handle :: nat
  objects :: "nat \<Rightarrow> obj"
  next_object :: nat
  lastId :: nat
  pathname :: string

type_synonym 'a res = "thrown + ('a \<times> heap)"

text \<open>A zero-argument function: it may change the heap, and returns a value or throws.
  A function it returns is opaque (\<open>Function c ()\<close>). When a call throws, the heap it
  leaves behind is not tracked.\<close>

type_synonym zfun = "heap \<Rightarrow> (unit jsval) res"

definition new_node :: "nkind \<Rightarrow> dnode" where
  "new_node k = \<lparr>kind = k, attrs = [], absolute = False, kids = [], fn_element_info = None\<rparr>"

definition alloc :: "dnode \<Rightarrow> heap \<Rightarrow> nat \<times> heap" where
  "alloc nd d = (next_node d, d\<lparr>nodes := (nodes d)(next_node d := nd), next_node := Suc (next_node d)\<rparr>)"

definition createTextNode :: "string \<Rightarrow> heap \<Rightarrow> nat \<times> heap" where
  "createTextNode s d = alloc (new_node (Text s)) d"

section \<open>The element renderer\<close>

text \<open>\<^verbatim>\<open>isNode\<close> (line 20). On an object or function without constructor the third
  disjunct reads \<^verbatim>\<open>el.constructor.toString\<close> of \<^verbatim>\<open>undefined\<close>, a TypeError. The result is used
  as a condition only, so it is given by its truthiness.\<close>

fun isNode :: "'f jsval \<Rightarrow> thrown + bool" where
  "isNode (Node n) = Inr True"
| "isNode (Object None) = Inl (TypeError ''Cannot read properties of undefined (reading 'toString')'')"
| "isNode (Function None f) = Inl (TypeError ''Cannot read properties of undefined (reading 'toString')'')"
| "isNode v = Inr False"

text \<open>\<^verbatim>\<open>badElementType\<close> (line 142): always throws. \<open>constructor_name\<close> is
  \<^verbatim>\<open>el.constructor.name\<close> where there is a constructor; the module never asks it of a
  node, whose class name stands as \<^verbatim>\<open>Node\<close>.\<close>

definition unsupported :: "string \<Rightarrow> string" where
  "unsupported nm = ''Element type '' @ nm @
     '' is not supported. Elements must be one of [String, Function, Element, HTMLElement]''"

fun constructor_name :: "'f jsval \<Rightarrow> string option" where
  "constructor_name (Boolean b) = Some ''Boolean''"
| "constructor_name (Number n) = Some ''Number''"
| "constructor_name NaN = Some ''Number''"
| "constructor_name (String s) = Some ''String''"
| "constructor_name (Function c f) = c"
| "constructor_name (Node n) = Some ''Node''"
| "constructor_name (Object c) = c"
| "constructor_name v = None"

fun badElementType :: "'f jsval \<Rightarrow> thrown" where
  "badElementType Undefined = TypeError ''Cannot read properties of undefined (reading 'constructor')''"
| "badElementType Null = TypeError ''Cannot read properties of null (reading 'constructor')''"
| "badElementType el =
     ErrorStack (unsupported
       (case constructor_name el of
          Some nm \<Rightarrow> if nm \<noteq> [] then nm else typeof el
        | None \<Rightarrow> typeof el))"

text \<open>\<^verbatim>\<open>renderElement\<close> (line 124).\<close>

definition children_undefined :: thrown where
  "children_undefined = ErrorStack ''children can't be undefined''"

fun renderElement :: "zfun jsval \<Rightarrow> heap \<Rightarrow> nat res" where
  "renderElement element d =
    (if typeof element \<noteq> ''string'' \<and> \<not> truthy element then Inl children_undefined
     else case element of
       String s \<Rightarrow> Inr (createTextNode s d)
     | Function c f \<Rightarrow>
         (case f d of
            Inl e \<Rightarrow> Inl e
          | Inr (returnedElement, d') \<Rightarrow>
              (case returnedElement of
                 String s \<Rightarrow> Inr (createTextNode s d')
               | _ \<Rightarrow>
                 (case isNode returnedElement of
                    Inl e \<Rightarrow> Inl e
                  | Inr False \<Rightarrow> Inl (badElementType element)
                  | Inr True \<Rightarrow> (case returnedElement of Node n \<Rightarrow> Inr (n, d')
                                 | _ \<Rightarrow> Inl (badElementType element)))))
     | _ \<Rightarrow>
       (case isNode element of
          Inl e \<Rightarrow> Inl e
        | Inr True \<Rightarrow> (case element of Node n \<Rightarrow> Inr (n, d) | _ \<Rightarrow> Inl (badElementType element))
        | Inr False \<Rightarrow> Inl (badElementType element)))"

section \<open>The router: path normalization and the display predicate\<close>

text \<open>\<^verbatim>\<open>ensureSlash\<close> (line 269). \<^verbatim>\<open>part.slice(0, -1)\<close> is \<open>butlast\<close>.\<close>

definition startsWith :: "string \<Rightarrow> string \<Rightarrow> bool" where
  "startsWith s p = prefix p s"

definition endsWith :: "string \<Rightarrow> string \<Rightarrow> bool" where
  "endsWith s p = suffix p s"

definition ensureSlash :: "string \<Rightarrow> string" where
  "ensureSlash part =
     (let part = (if startsWith part ''/'' then part else ''/'' @ part)
      in if endsWith part ''/'' then butlast part else part)"

text \<open>
  \<^verbatim>\<open>shouldDisplayRoute\<close> (line 295). The relative branch rewrites \<open>path\<close> with
  \<^verbatim>\<open>path.replace(/^(.*)\/([^\/]*)$/, '$1/?$2([/?#]|$)')\<close> and hands the resulting string to
  \<^verbatim>\<open>currPath.match\<close>, which compiles it as a regular expression. The rewriting splits
  \<open>path\<close> at its last \<^verbatim>\<open>/\<close> (the second group holds no slash) when the part before
  it holds no line terminator (\<^verbatim>\<open>.\<close> does not match one); otherwise \<open>path\<close> is left as
  it is. The compiled pattern is a sequence of the items below.
\<close>

datatype rx =
    Lit string          \<comment> \<open>a run of characters that stand for themselves\<close>
  | Optional char       \<comment> \<open>\<^verbatim>\<open>c?\<close>\<close>
  | Boundary            \<comment> \<open>\<^verbatim>\<open>([/?#]|$)\<close>\<close>

definition regexp_special :: "char set" where
  "regexp_special = insert (CHR 0x5C) (set ''^$.*+?()[]{}|'')"

definition line_terminator :: "char set" where
  "line_terminator = {CHR 0x0A, CHR 0x0D}"

text \<open>The characters of \<open>path\<close> stand for themselves in the compiled pattern when
  none of them is RegExp syntax. Only such paths are interpreted here.\<close>

definition literal_path :: "string \<Rightarrow> bool" where
  "literal_path path = (\<forall>c \<in> set path. c \<notin> regexp_special)"

definition before_last_slash :: "string \<Rightarrow> string" where
  "before_last_slash path = butlast (rev (dropWhile (\<lambda>c. c \<noteq> CHR ''/'') (rev path)))"

definition after_last_slash :: "string \<Rightarrow> string" where
  "after_last_slash path = rev (takeWhile (\<lambda>c. c \<noteq> CHR ''/'') (rev path))"

definition route_pattern_text :: "string \<Rightarrow> string" where
  "route_pattern_text path =
     (if CHR ''/'' \<in> set path \<and> set (before_last_slash path) \<inter> line_terminator = {}
      then before_last_slash path @ ''/?'' @ after_last_slash path @ ''([/?#]|$)''
      else path)"

definition route_pattern :: "string \<Rightarrow> rx list" where
  "route_pattern path =
     (if CHR ''/'' \<in> set path \<and> set (before_last_slash path) \<inter> line_terminator = {}
      then [Lit (before_last_slash path), Optional (CHR ''/''), Lit (after_last_slash path), Boundary]
      else [Lit path])"

text \<open>Matching a pattern at the start of a string (with backtracking over the
  optional character), and searching for a match at any position, as
  \<^verbatim>\<open>String.prototype.match\<close> does for a pattern without anchors.\<close>

fun rx_match :: "rx list \<Rightarrow> string \<Rightarrow> bool" where
  "rx_match [] s = True"
| "rx_match (Lit l # rs) s = (prefix l s \<and> rx_match rs (drop (length l) s))"
| "rx_match (Optional c # rs) s =
     ((case s of x # t \<Rightarrow> x = c \<and> rx_match rs t | [] \<Rightarrow> False) \<or> rx_match rs s)"
| "rx_match (Boundary # rs) s =
     ((case s of x # t \<Rightarrow> x \<in> set ''/?#'' \<and> rx_match rs t | [] \<Rightarrow> False) \<or> (s = [] \<and> rx_match rs s))"

fun rx_search :: "rx list \<Rightarrow> string \<Rightarrow> bool" where
  "rx_search rs [] = rx_match rs []"
| "rx_search rs (x # t) = (rx_match rs (x # t) \<or> rx_search rs t)"

text \<open>The predicate takes \<^verbatim>\<open>pathState.info.rootPath\<close> and \<^verbatim>\<open>window.location.pathname\<close>
  as arguments. \<open>None\<close>: the relative pattern holds RegExp syntax and is not interpreted.\<close>

definition shouldDisplayRoute :: "string \<Rightarrow> string \<Rightarrow> string \<Rightarrow> bool \<Rightarrow> bool option" where
  "shouldDisplayRoute rootPath currPath route isAbsolute =
     (let path = rootPath @ ensureSlash route
      in if isAbsolute then Some (currPath = path \<or> currPath = path @ ''/'')
         else if literal_path path then Some (rx_search (route_pattern path) currPath)
         else None)"

section \<open>Node identity tags\<close>

text \<open>\<^verbatim>\<open>tagElement\<close>, \<^verbatim>\<open>isTagged\<close>, \<^verbatim>\<open>getElId\<close> (lines 153 to 168). \<^verbatim>\<open>tagElement\<close> is
  called on nodes and, in \<^verbatim>\<open>addObserver\<close>, on a binding handle. \<^verbatim>\<open>getElId\<close> gives
  \<^verbatim>\<open>false\<close> for an untagged node: \<open>None\<close>.\<close>

definition tagElement :: "nat \<Rightarrow> heap \<Rightarrow> heap" where
  "tagElement el d =
     (if fn_element_info (nodes d el) = None
      then d\<lparr>nodes := (nodes d)(el := (nodes d el)\<lparr>fn_element_info := Some (lastId d)\<rparr>),
             lastId := Suc (lastId d)\<rparr>
      else d)"

definition tagElement_handle :: "nat \<Rightarrow> heap \<Rightarrow> heap" where
  "tagElement_handle el d =
     (if handle_info (handles d el) = None
      then d\<lparr>handles := (handles d)(el := (handles d el)\<lparr>handle_info := Some (lastId d)\<rparr>),
             lastId := Suc (lastId d)\<rparr>
      else d)"

definition isTagged :: "nat \<Rightarrow> heap \<Rightarrow> bool" where
  "isTagged el d = (fn_element_info (nodes d el) \<noteq> None)"

definition getElId :: "nat \<Rightarrow> heap \<Rightarrow> nat option" where
  "getElId el d = (if isTagged el d then fn_element_info (nodes d el) else None)"

section \<open>The DOM operations the module calls\<close>

text \<open>
  These follow the DOM standard for a forest of element and text nodes.
  \<^verbatim>\<open>replaceWith\<close> does nothing on a node without parent; it and \<^verbatim>\<open>append\<close> throw a
  \<^verbatim>\<open>HierarchyRequestError\<close> when the node to insert is the parent or one of its
  ancestors; inserting a node first removes it from where it was. The walk up to
  the ancestors takes at most as many steps as there are nodes.
\<close>

definition parent_of :: "heap \<Rightarrow> nat \<Rightarrow> nat option" where
  "parent_of d c = find (\<lambda>p. c \<in> set (kids (nodes d p))) [0..<next_node d]"

fun inclusive_ancestor :: "nat \<Rightarrow> heap \<Rightarrow> nat \<Rightarrow> nat \<Rightarrow> bool" where
  "inclusive_ancestor 0 d a n = (a = n)"
| "inclusive_ancestor (Suc k) d a n =
     (a = n \<or> (case parent_of d n of None \<Rightarrow> False | Some p \<Rightarrow> inclusive_ancestor k d a p))"

definition set_kids :: "nat \<Rightarrow> nat list \<Rightarrow> heap \<Rightarrow> heap" where
  "set_kids p ks d = d\<lparr>nodes := (nodes d)(p := (nodes d p)\<lparr>kids := ks\<rparr>)\<rparr>"

definition detach :: "nat \<Rightarrow> heap \<Rightarrow> heap" where
  "detach n d = d\<lparr>nodes := (\<lambda>q. (nodes d q)\<lparr>kids := removeAll n (kids (nodes d q))\<rparr>)\<rparr>"

definition replaceWith :: "nat \<Rightarrow> nat \<Rightarrow> heap \<Rightarrow> thrown + heap" where
  "replaceWith old new d =
     (case parent_of d old of
        None \<Rightarrow> Inr d
      | Some p \<Rightarrow>
          if inclusive_ancestor (next_node d) d new p then Inl HierarchyRequestError
          else if new = old then Inr d
          else Inr (set_kids p (map (\<lambda>c. if c = old then new else c) (removeAll new (kids (nodes d p))))
                      (detach new d)))"





text \<open>\<^verbatim>\<open>marker()\<close> (line 375), called without attributes: a hidden \<^verbatim>\<open>div\<close>.\<close>

definition marker :: "heap \<Rightarrow> nat \<times> heap" where
  "marker d = alloc ((new_node (Element ''div''))\<lparr>attrs := [(''style'', ''display:none'')]\<rparr>) d"

section \<open>Observable state\<close>

text \<open>
  A render function receives one argument and returns what \<^verbatim>\<open>renderElement\<close> is then
  given; an update function receives the current node and the argument. Both act
  on the heap only: they cannot assign through a proxy (the module leaves it to the
  caller not to do so from a bound function).
\<close>

type_synonym rfun = "arg \<Rightarrow> heap \<Rightarrow> (zfun jsval) res"
type_synonym ufun = "nat \<Rightarrow> arg \<Rightarrow> heap \<Rightarrow> (unit jsval) res"

text \<open>The closure pushed by \<^verbatim>\<open>addObserver\<close> (line 80) is given by the variables it
  captures.\<close>

record observer =
  obs_el :: nat
  obs_element :: "rfun jsval"
  obs_update :: "ufun jsval"

text \<open>
  The world: the heap, and for each state created by \<^verbatim>\<open>fnstate\<close> its \<^verbatim>\<open>observers\<close>
  array. A state has the address of its backing object. A slot of the array removed
  by \<^verbatim>\<open>delete\<close> is a hole: \<open>None\<close>. \<open>calls\<close> records every observer invocation
  (state, slot, argument) in order; no operation reads it.
\<close>

record world =
  hp :: heap
  observers :: "nat \<Rightarrow> observer option list"
  calls :: "(nat \<times> nat \<times> arg) list"

definition fn_state_info :: string where
  "fn_state_info = ''_fn_state_info''"

text \<open>
  What \<^verbatim>\<open>fnstate\<close> can be given, by \<^verbatim>\<open>typeof\<close>: a new plain object (with writable,
  configurable data properties) that is extensible or not (\<^verbatim>\<open>Object.preventExtensions\<close>,
  \<^verbatim>\<open>seal\<close> and \<^verbatim>\<open>freeze\<close> make it not), an object that already is a state (the backing
  object of a state, or its proxy), \<^verbatim>\<open>null\<close>, or a value that is not an object.
\<close>

datatype initial =
    InitObject obj bool | InitState nat | InitNull | InitUndefined | InitBoolean bool
  | InitNumber int | InitString string | InitFunction

fun typeof_initial :: "initial \<Rightarrow> string" where
  "typeof_initial (InitObject ob extensible) = ''object''"
| "typeof_initial (InitState p) = ''object''"
| "typeof_initial InitNull = ''object''"
| "typeof_initial InitUndefined = ''undefined''"
| "typeof_initial (InitBoolean b) = ''boolean''"
| "typeof_initial (InitNumber n) = ''number''"
| "typeof_initial (InitString s) = ''string''"
| "typeof_initial InitFunction = ''function''"

text \<open>
  \<^verbatim>\<open>fnstate\<close> (line 63). The proxy's target is \<^verbatim>\<open>initialState\<close> itself: the state's
  backing object and the object \<^verbatim>\<open>reset\<close> later reads are one object. The Proxy
  constructor throws a TypeError on \<^verbatim>\<open>null\<close>. \<^verbatim>\<open>Object.defineProperty\<close> (line 94) throws
  a TypeError when it cannot add the hidden \<^verbatim>\<open>_fn_state_info\<close> property: on an object
  that is not extensible, and on an object that already is a state, whose
  \<^verbatim>\<open>_fn_state_info\<close> is neither writable nor configurable. \<open>None\<close>: the new object has an
  own property named \<^verbatim>\<open>_fn_state_info\<close>, which line 94 would redefine; such objects are
  not interpreted.
\<close>

definition fnstate :: "initial \<Rightarrow> world \<Rightarrow> (thrown + (nat \<times> world)) option" where
  "fnstate initialState w =
     (if typeof_initial initialState \<noteq> ''object''
      then Some (Inl (ErrorStack ''initial state must be an object''))
      else case initialState of
        InitObject ob extensible \<Rightarrow>
          if fn_state_info \<in> fst ` set ob then None
          else if \<not> extensible
          then Some (Inl (TypeError ''Cannot define property _fn_state_info, object is not extensible''))
          else
            (let d = hp w; p = next_object d
             in Some (Inr (p, w\<lparr>hp := d\<lparr>objects := (objects d)(p := ob), next_object := Suc p\<rparr>,
                               observers := (observers w)(p := [])\<rparr>)))
      | InitState p \<Rightarrow> Some (Inl (TypeError ''Cannot redefine property: _fn_state_info''))
      | _ \<Rightarrow> Some (Inl (TypeError ''Cannot create proxy with a non-object as target or handler'')))"

text \<open>\<^verbatim>\<open>Reflect[...](...args)\<close> with the arguments the proxy hands to its traps.
  The hidden \<^verbatim>\<open>_fn_state_info\<close> property is neither writable nor configurable.\<close>

datatype trap = Reflect_set | Reflect_deleteProperty

fun Reflect :: "trap \<Rightarrow> arg list \<Rightarrow> heap \<Rightarrow> bool \<times> heap" where
  "Reflect Reflect_set [ObjRef t, Val (String k), v, receiver] d =
     (if k = fn_state_info then (False, d)
      else (True, d\<lparr>objects := (objects d)(t := AList.update k v (objects d t))\<rparr>))"
| "Reflect Reflect_deleteProperty [ObjRef t, Val (String k)] d =
     (if k = fn_state_info then (False, d)
      else (True, d\<lparr>objects := (objects d)(t := AList.delete k (objects d t))\<rparr>))"
| "Reflect t args d = (False, d)"

text \<open>The body of an observer (lines 81 to 90).\<close>

definition compute_newElement :: "observer \<Rightarrow> arg \<Rightarrow> heap \<Rightarrow> (unit jsval) res" where
  "compute_newElement ob state d =
     (if truthy (obs_update ob) then
        (case obs_update ob of
           Function c update \<Rightarrow> update (current (handles d (obs_el ob))) state d
         | _ \<Rightarrow> Inl (TypeError ''update is not a function''))
      else
        (case obs_element ob of
           Function c element \<Rightarrow>
             (case element state d of
                Inl e \<Rightarrow> Inl e
              | Inr (v, d') \<Rightarrow>
                  (case renderElement v d' of
                     Inl e \<Rightarrow> Inl e
                   | Inr (n, d'') \<Rightarrow> Inr (Node n, d'')))
         | _ \<Rightarrow> Inl (TypeError ''element is not a function'')))"

definition delete_slot :: "nat option \<Rightarrow> 'a option list \<Rightarrow> 'a option list" where
  "delete_slot key xs = (case key of None \<Rightarrow> xs | Some i \<Rightarrow> xs[i := None])"

definition set_current :: "nat \<Rightarrow> nat \<Rightarrow> heap \<Rightarrow> heap" where
  "set_current el n d = d\<lparr>handles := (handles d)(el := (handles d el)\<lparr>current := n\<rparr>)\<rparr>"

definition observer_body :: "nat \<Rightarrow> observer \<Rightarrow> arg \<Rightarrow> world \<Rightarrow> thrown + world" where
  "observer_body sid ob state w =
     (case compute_newElement ob state (hp w) of
        Inl e \<Rightarrow> Inl e
      | Inr (newElement, d1) \<Rightarrow>
          if \<not> truthy newElement then Inr (w\<lparr>hp := d1\<rparr>)
          else case isNode newElement of
            Inl e \<Rightarrow> Inl e
          | Inr False \<Rightarrow> Inr (w\<lparr>hp := d1\<rparr>)
          | Inr True \<Rightarrow>
              (case newElement of
                 Node n \<Rightarrow>
                   (let d2 = (if \<not> isTagged n d1 then tagElement n d1 else d1);
                        cur = current (handles d2 (obs_el ob))
                    in if getElId cur d2 \<noteq> getElId n d2 then
                         (case replaceWith cur n d2 of
                            Inl e \<Rightarrow> Inl e
                          | Inr d3 \<Rightarrow>
                              Inr (w\<lparr>hp := set_current (obs_el ob) n d3,
                                     observers := (observers w)
                                       (sid := delete_slot (getElId cur d2) (observers w sid))\<rparr>))
                       else Inr (w\<lparr>hp := d2\<rparr>))
               | _ \<Rightarrow> Inr (w\<lparr>hp := d1\<rparr>)))"

text \<open>
  \<^verbatim>\<open>notify\<close> (line 66). The \<^verbatim>\<open>for ... of\<close> loop visits the slots \<open>0, 1, ...\<close> while the
  index is below the array's current length; calling a hole is a TypeError. The
  first argument bounds the number of iterations: no observer can lengthen the
  array, so its length at the start is enough.
\<close>

fun notify_loop :: "nat \<Rightarrow> nat \<Rightarrow> arg \<Rightarrow> nat \<Rightarrow> world \<Rightarrow> thrown + world" where
  "notify_loop 0 sid a i w = Inr w"
| "notify_loop (Suc fuel) sid a i w =
     (if i < length (observers w sid) then
        (case observers w sid ! i of
           None \<Rightarrow> Inl (TypeError ''observer is not a function'')
         | Some observer \<Rightarrow>
             (case observer_body sid observer a (w\<lparr>calls := calls w @ [(sid, i, a)]\<rparr>) of
                Inl e \<Rightarrow> Inl e
              | Inr w' \<Rightarrow> notify_loop fuel sid a (Suc i) w'))
      else Inr w)"

definition notify :: "trap \<Rightarrow> nat \<Rightarrow> arg list \<Rightarrow> world \<Rightarrow> thrown + (bool \<times> world)" where
  "notify meth sid args w =
     (let (result, d) = Reflect meth args (hp w);
          w1 = w\<lparr>hp := d\<rparr>
      in case notify_loop (length (observers w1 sid)) sid (args ! 0) 0 w1 of
           Inl e \<Rightarrow> Inl e
         | Inr w2 \<Rightarrow> Inr (result, w2))"

text \<open>Assigning to and deleting a property of the proxy \<open>p\<close> run the traps (lines 74
  and 75) with the target, the key, the value and the proxy. The boolean is what the
  trap returns.\<close>

definition proxy_set :: "nat \<Rightarrow> string \<Rightarrow> arg \<Rightarrow> world \<Rightarrow> thrown + (bool \<times> world)" where
  "proxy_set p k v w = notify Reflect_set p [ObjRef p, Val (String k), v, ProxyRef p] w"

definition proxy_deleteProperty :: "nat \<Rightarrow> string \<Rightarrow> world \<Rightarrow> thrown + (bool \<times> world)" where
  "proxy_deleteProperty p k w = notify Reflect_deleteProperty p [ObjRef p, Val (String k)] w"

text \<open>\<^verbatim>\<open>addObserver\<close> (line 78).\<close>

definition addObserver :: "nat \<Rightarrow> nat \<Rightarrow> rfun jsval \<Rightarrow> ufun jsval \<Rightarrow> world \<Rightarrow> world" where
  "addObserver p el element update w =
     w\<lparr>hp := tagElement_handle el (hp w),
       observers := (observers w)
         (p := observers w p @ [Some \<lparr>obs_el = el, obs_element = element, obs_update = update\<rparr>])\<rparr>"

text \<open>
  \<^verbatim>\<open>reset\<close> (line 97). \<^verbatim>\<open>Object.assign(p, initialState)\<close> takes the own enumerable keys
  of \<^verbatim>\<open>initialState\<close>, then for each key still present reads its value and assigns it
  through the proxy; an assignment the trap refuses is a TypeError.
\<close>

fun assign_loop :: "string list \<Rightarrow> nat \<Rightarrow> world \<Rightarrow> thrown + world" where
  "assign_loop [] p w = Inr w"
| "assign_loop (k # ks) p w =
     (case map_of (objects (hp w) p) k of
        None \<Rightarrow> assign_loop ks p w
      | Some v \<Rightarrow>
          (case proxy_set p k v w of
             Inl e \<Rightarrow> Inl e
           | Inr (ok, w') \<Rightarrow>
               if ok then assign_loop ks p w'
               else Inl (TypeError ''set on proxy: trap returned falsish'')))"

definition reset :: "nat \<Rightarrow> bool \<Rightarrow> world \<Rightarrow> thrown + world" where
  "reset p reInit w =
     (let w1 = w\<lparr>observers := (observers w)(p := [])\<rparr>
      in if reInit then assign_loop (map fst (objects (hp w1) p)) p w1 else Inr w1)"

text \<open>\<^verbatim>\<open>resetState\<close> (line 115).\<close>

fun resetState :: "arg \<Rightarrow> bool \<Rightarrow> world \<Rightarrow> thrown + world" where
  "resetState (ProxyRef p) reinit w = reset p reinit w"
| "resetState (ObjRef p) reinit w = reset p reinit w"
| "resetState (Val Undefined) reinit w = Inl (TypeError ''Cannot read properties of undefined'')"
| "resetState (Val Null) reinit w = Inl (TypeError ''Cannot read properties of null'')"
| "resetState v reinit w = Inr w"

section \<open>The binding engine\<close>

text \<open>\<^verbatim>\<open>isfnstate\<close> (line 148), with the state that \<^verbatim>\<open>st._fn_state_info\<close> then belongs
  to. The hidden property sits on the backing object, so the object and its proxy
  both have it. An object without constructor has no \<^verbatim>\<open>hasOwnProperty\<close> either.\<close>

fun isfnstate :: "arg \<Rightarrow> thrown + nat option" where
  "isfnstate (ProxyRef p) = Inr (Some p)"
| "isfnstate (ObjRef p) = Inr (Some p)"
| "isfnstate (Val Undefined) = Inl (TypeError ''Cannot read properties of undefined (reading 'hasOwnProperty')'')"
| "isfnstate (Val Null) = Inl (TypeError ''Cannot read properties of null (reading 'hasOwnProperty')'')"
| "isfnstate (Val (Object None)) = Inl (TypeError ''st.hasOwnProperty is not a function'')"
| "isfnstate v = Inr None"

text \<open>The \<^verbatim>\<open>reduce\<close> of line 45. \<open>toString\<close> is the text the template literal gives
  for a value.\<close>

fun bind_states ::
  "(arg \<Rightarrow> string) \<Rightarrow> arg list \<Rightarrow> nat \<Rightarrow> rfun jsval \<Rightarrow> ufun jsval \<Rightarrow> world \<Rightarrow> thrown + world" where
  "bind_states toString [] el element update w = Inr w"
| "bind_states toString (st # sts) el element update w =
     (case isfnstate st of
        Inl e \<Rightarrow> Inl e
      | Inr None \<Rightarrow>
          Inl (ErrorStack (''State: '' @ toString st @ '' is not initialized. Use fnstate() to initialize.''))
      | Inr (Some p) \<Rightarrow> bind_states toString sts el element update (addObserver p el element update w))"

text \<open>What a binding is bound to once the checks of lines 42 and 43 have passed, and
  the accessor \<^verbatim>\<open>fnbind\<close> returns (line 52), given by the variables it captures. Line 42
  asks \<^verbatim>\<open>isNode\<close> only of what is not a function; line 43 asks it of every element.\<close>

datatype bound = BoundFunction rfun | BoundNode nat

datatype accessor = Accessor nat bound arg

fun bind_target :: "rfun jsval \<Rightarrow> thrown + bound option" where
  "bind_target (Function c f) =
     (case isNode (Function c f) of Inl e \<Rightarrow> Inl e | Inr b \<Rightarrow> Inr (Some (BoundFunction f)))"
| "bind_target (Node n) = Inr (Some (BoundNode n))"
| "bind_target v = (case isNode v of Inl e \<Rightarrow> Inl e | Inr b \<Rightarrow> Inr None)"

definition new_handle :: "nat \<Rightarrow> heap \<Rightarrow> nat \<times> heap" where
  "new_handle n d =
     (next_handle d,
      d\<lparr>handles := (handles d)(next_handle d := \<lparr>current = n, handle_info = None\<rparr>),
        next_handle := Suc (next_handle d)\<rparr>)"

definition fnbind ::
  "(arg \<Rightarrow> string) \<Rightarrow> arg \<Rightarrow> rfun jsval \<Rightarrow> ufun jsval \<Rightarrow> world \<Rightarrow> thrown + (accessor \<times> world)" where
  "fnbind toString state element update w =
     (case bind_target element of
        Inl e \<Rightarrow> Inl e
      | Inr None \<Rightarrow> Inl (ErrorStack ''You can only bind functions and Elements'')
      | Inr (Some b) \<Rightarrow>
          if (case b of BoundNode n \<Rightarrow> True | BoundFunction f \<Rightarrow> False) \<and> typeof update \<noteq> ''function''
          then Inl (ErrorStack ''You must supply an update function when binding an element'')
          else
            (let states = (case state of Array sts \<Rightarrow> sts | _ \<Rightarrow> [state]);
                 (m, d1) = marker (hp w);
                 (el, d2) = new_handle m d1
             in case bind_states toString states el element update (w\<lparr>hp := d2\<rparr>) of
                  Inl e \<Rightarrow> Inl e
                | Inr w' \<Rightarrow> Inr (Accessor el b state, w')))"

fun accessor_call :: "accessor \<Rightarrow> heap \<Rightarrow> nat res" where
  "accessor_call (Accessor el (BoundFunction element) state) d =
     (case element state d of
        Inl e \<Rightarrow> Inl e
      | Inr (v, d1) \<Rightarrow>
          (case renderElement v d1 of
             Inl e \<Rightarrow> Inl e
           | Inr (n, d2) \<Rightarrow> Inr (n, set_current el n d2)))"
| "accessor_call (Accessor el (BoundNode n) state) d = Inr (n, set_current el n d)"

section \<open>Mounting\<close>




section \<open>The route switch\<close>





section \<open>A starting point\<close>

text \<open>The heap and the world before anything is created (\<^verbatim>\<open>lastId = 0\<close>, line 150), with
  the browser at \<^verbatim>\<open>/\<close>. Unused addresses hold default contents.\<close>

definition heap0 :: heap where
  "heap0 =
     \<lparr>nodes = (\<lambda>n. new_node (Element ''div'')), next_node = 0,
      handles = (\<lambda>n. \<lparr>current = 0, handle_info = None\<rparr>), next_handle = 0,
      objects = (\<lambda>n. []), next_object = 0,
      lastId = 0, pathname = ''/''\<rparr>"

definition world0 :: world where
  "world0 = \<lparr>hp = heap0, observers = (\<lambda>p. []), calls = []\<rparr>"

text \<open>Sample bindings: a render function that returns the text \<^verbatim>\<open>x\<close>, one that builds
  a new \<^verbatim>\<open>div\<close> at each call, and an update function that patches in place and
  returns nothing. \<open>label\<close> stands for the text of an object in a template literal.\<close>

definition text_x :: "rfun jsval" where
  "text_x = Function (Some ''Function'') (\<lambda>a d. Inr (String ''x'', d))"

definition fresh_div :: "rfun jsval" where
  "fresh_div = Function (Some ''Function'') (\<lambda>a d. case alloc (new_node (Element ''div'')) d of (n, d') \<Rightarrow> Inr (Node n, d'))"

definition patch_in_place :: "ufun jsval" where
  "patch_in_place = Function (Some ''Function'') (\<lambda>n a d. Inr (Undefined, d))"

definition label :: "arg \<Rightarrow> string" where
  "label a = ''[object Object]''"

text \<open>\<^verbatim>\<open>s = fnstate({a: 1})\<close> in the empty world; then two bindings of \<open>s\<close> that patch
  in place; or one binding of \<open>s\<close> to \<open>text_x\<close>; or \<^verbatim>\<open>fnbind([s, s], ...)\<close> with a
  render function that builds a new element.\<close>

definition one_state :: world where
  "one_state =
     (case fnstate (InitObject [(''a'', Val (Number 1))] True) world0 of
        Some (Inr (p, w)) \<Rightarrow> w | _ \<Rightarrow> world0)"

text \<open>The same with an \<^verbatim>\<open>input\<close> element (node \<open>0\<close>) created beside the state.\<close>

definition with_input :: world where
  "with_input = (case alloc (new_node (Element ''input'')) (hp one_state) of (n, d) \<Rightarrow> one_state\<lparr>hp := d\<rparr>)"

definition two_patching :: world where
  "two_patching =
     (case fnbind label (ProxyRef 0) text_x patch_in_place one_state of
        Inr (acc, w) \<Rightarrow>
          (case fnbind label (ProxyRef 0) text_x patch_in_place w of Inr (acc', w') \<Rightarrow> w' | Inl e \<Rightarrow> world0)
      | Inl e \<Rightarrow> world0)"

definition one_rendering :: world where
  "one_rendering =
     (case fnbind label (ProxyRef 0) text_x Undefined one_state of Inr (acc, w) \<Rightarrow> w | Inl e \<Rightarrow> world0)"

definition bound_twice :: world where
  "bound_twice =
     (case fnbind label (Array [ProxyRef 0, ProxyRef 0]) fresh_div Undefined one_state of
        Inr (acc, w) \<Rightarrow> w | Inl e \<Rightarrow> world0)"





section \<open>Shape of the DOM\<close>


section \<open>Path normalization\<close>

lemma suffix_single: "suffix [c] xs = (xs \<noteq> [] \<and> last xs = c)"
  by (cases xs rule: rev_cases) (auto simp: suffix_def)

lemma prefix_single: "prefix [c] xs = (xs \<noteq> [] \<and> hd xs = c)"
  by (cases xs) auto

lemma suffix_double: "suffix [c, c] xs = (\<exists>ys. xs = ys @ [c, c])"
  by (auto simp: suffix_def)

lemma prefix_double: "prefix [c, c] xs = (xs \<noteq> [] \<and> hd xs = c \<and> tl xs \<noteq> [] \<and> hd (tl xs) = c)"
  by (cases xs; cases "tl xs") auto

lemma ensureSlash_root: "ensureSlash ''/'' = []"
  by (simp add: ensureSlash_def startsWith_def endsWith_def)

lemma ensureSlash_a: "ensureSlash ''/a'' = ''/a''"
  by (simp add: ensureSlash_def startsWith_def endsWith_def suffix_single)

text \<open>
  Claim C8, as stated, fails: the bare root \<^verbatim>\<open>/\<close> is not preserved but becomes the empty
  string, a doubled leading slash stays, and of a doubled trailing slash one remains.
\<close>

theorem ensureSlash_counterexample:
  "ensureSlash ''/'' = [] \<and> ensureSlash ''//a'' = ''//a'' \<and> ensureSlash ''a//'' = ''/a/''"
  by (simp add: ensureSlash_def startsWith_def endsWith_def suffix_single)

text \<open>
  Claim C8, amended: \<open>ensureSlash\<close> puts one \<^verbatim>\<open>/\<close> in front of an input that does not
  start with one and then drops one trailing \<^verbatim>\<open>/\<close>. The result is empty exactly for the
  inputs \<^verbatim>\<open>""\<close> and \<^verbatim>\<open>"/"\<close> and otherwise starts with \<^verbatim>\<open>/\<close>; it does not end with \<^verbatim>\<open>/\<close>
  unless the input ends with \<^verbatim>\<open>//\<close>, and does not start with \<^verbatim>\<open>//\<close> unless the input does.
\<close>

theorem ensureSlash_shape:
  "(ensureSlash p = [] \<longleftrightarrow> p = [] \<or> p = ''/'') \<and>
   (ensureSlash p \<noteq> [] \<longrightarrow> startsWith (ensureSlash p) ''/'') \<and>
   (\<not> endsWith p ''//'' \<longrightarrow> \<not> endsWith (ensureSlash p) ''/'') \<and>
   (\<not> startsWith p ''//'' \<longrightarrow> \<not> startsWith (ensureSlash p) ''//'')"
proof (cases "prefix ''/'' p")
  case True
  then obtain t where p: "p = CHR ''/'' # t" by (cases p) auto
  show ?thesis
  proof (cases t rule: rev_cases)
    case Nil
    with p show ?thesis
      by (simp add: ensureSlash_def startsWith_def endsWith_def suffix_single)
  next
    case (snoc ys y)
    with p show ?thesis
      by (cases ys rule: rev_cases)
         (auto simp: ensureSlash_def Let_def startsWith_def endsWith_def suffix_single suffix_double
            prefix_double prefix_single butlast_append hd_append split: if_splits)
  qed
next
  case False
  show ?thesis
  proof (cases p rule: rev_cases)
    case Nil
    then show ?thesis
      by (simp add: ensureSlash_def startsWith_def endsWith_def suffix_single)
  next
    case (snoc ys y)
    with False show ?thesis
      by (cases ys rule: rev_cases)
         (auto simp: ensureSlash_def Let_def startsWith_def endsWith_def suffix_single suffix_double
            prefix_double prefix_single butlast_append hd_append split: if_splits)
  qed
qed

theorem ensureSlash_shape_witness:
  "ensureSlash ''a/b/'' \<noteq> [] \<and> startsWith (ensureSlash ''a/b/'') ''/'' \<and>
   \<not> endsWith ''a/b/'' ''//'' \<and> \<not> endsWith (ensureSlash ''a/b/'') ''/'' \<and>
   \<not> startsWith ''a/b/'' ''//'' \<and> \<not> startsWith (ensureSlash ''a/b/'') ''//''"
proof -
  have h: "\<not> endsWith ''a/b/'' ''//''" "\<not> startsWith ''a/b/'' ''//''" "''a/b/'' \<noteq> []" "''a/b/'' \<noteq> ''/''"
    by (simp_all add: endsWith_def startsWith_def suffix_double)
  with ensureSlash_shape [of "''a/b/''"] show ?thesis by blast
qed

section \<open>The display predicate\<close>

lemma rx_match_a:
  "rx_match [Lit [], Optional (CHR ''/''), Lit ''a'', Boundary] s =
     ((\<exists>post. s = ''a'' @ post \<and> (post = [] \<or> hd post \<in> set ''/?#'')) \<or>
      (\<exists>post. s = ''/a'' @ post \<and> (post = [] \<or> hd post \<in> set ''/?#'')))"
  by (cases s; auto simp: prefix_Cons split: list.splits)

lemma rx_search_a:
  "rx_search [Lit [], Optional (CHR ''/''), Lit ''a'', Boundary] s =
     (\<exists>pre post. s = pre @ ''a'' @ post \<and> (post = [] \<or> hd post \<in> set ''/?#''))"
proof (induction s)
  case Nil
  show ?case by simp
next
  case (Cons x t)
  let ?P = "\<lambda>s. \<exists>pre post. s = pre @ ''a'' @ post \<and> (post = [] \<or> hd post \<in> set ''/?#'')"
  let ?rs = "[Lit [], Optional (CHR ''/''), Lit ''a'', Boundary]"
  have "?P (x # t) = (rx_match ?rs (x # t) \<or> ?P t)"
  proof
    assume "?P (x # t)"
    then obtain pre post where e: "x # t = pre @ ''a'' @ post"
      and b: "post = [] \<or> hd post \<in> set ''/?#''" by blast
    show "rx_match ?rs (x # t) \<or> ?P t"
    proof (cases pre)
      case Nil
      with e b show ?thesis unfolding rx_match_a by auto
    next
      case (Cons y pre')
      with e have "t = pre' @ ''a'' @ post" by simp
      with b show ?thesis by blast
    qed
  next
    assume "rx_match ?rs (x # t) \<or> ?P t"
    then show "?P (x # t)"
    proof
      assume "rx_match ?rs (x # t)"
      then consider post where "x # t = ''a'' @ post" "post = [] \<or> hd post \<in> set ''/?#''"
        | post where "x # t = ''/a'' @ post" "post = [] \<or> hd post \<in> set ''/?#''"
        unfolding rx_match_a by blast
      then show ?thesis
      proof cases
        case 1
        then have "x # t = [] @ ''a'' @ post" by simp
        with 1(2) show ?thesis by blast
      next
        case 2
        then have "x # t = ''/'' @ ''a'' @ post" by simp
        with 2(2) show ?thesis by blast
      qed
    next
      assume "?P t"
      then obtain pre post where "t = pre @ ''a'' @ post"
        and b: "post = [] \<or> hd post \<in> set ''/?#''" by blast
      then have "x # t = (x # pre) @ ''a'' @ post" by simp
      with b show ?thesis by blast
    qed
  qed
  with Cons show ?case by simp
qed

lemma route_pattern_text_a: "route_pattern_text ''/a'' = ''/?a([/?#]|$)''"
  by (simp add: route_pattern_text_def before_last_slash_def after_last_slash_def line_terminator_def)

lemma route_pattern_a:
  "route_pattern ''/a'' = [Lit [], Optional (CHR ''/''), Lit ''a'', Boundary]"
  by (simp add: route_pattern_def before_last_slash_def after_last_slash_def line_terminator_def)

lemma shouldDisplayRoute_a:
  "shouldDisplayRoute (ensureSlash ''/'') currPath ''/a'' False =
     Some (\<exists>pre post. currPath = pre @ ''a'' @ post \<and> (post = [] \<or> hd post \<in> set ''/?#''))"
  by (simp add: shouldDisplayRoute_def ensureSlash_root ensureSlash_a rx_search_a route_pattern_a
      literal_path_def regexp_special_def)

text \<open>
  Claim C6, at a failing input: with the root path set from \<^verbatim>\<open>/\<close>, the relative route
  \<^verbatim>\<open>/a\<close> is displayed at the browser path \<^verbatim>\<open>/ba\<close>, which is neither \<^verbatim>\<open>/a\<close> nor under
  \<^verbatim>\<open>/a/\<close> and does not start with the route's path; it is displayed at \<^verbatim>\<open>/x/a\<close> as
  well. The pattern built at line 301 is neither anchored nor bound to a slash.
\<close>

theorem shouldDisplayRoute_displays_ba:
  "shouldDisplayRoute (ensureSlash ''/'') ''/ba'' ''/a'' False = Some True \<and>
   ''/ba'' \<noteq> ''/a'' \<and> \<not> prefix ''/a/'' ''/ba'' \<and> \<not> prefix ''/a'' ''/ba'' \<and>
   shouldDisplayRoute (ensureSlash ''/'') ''/x/a'' ''/a'' False = Some True \<and>
   \<not> prefix ''/a'' ''/x/a''"
proof -
  have "''/ba'' = ''/b'' @ ''a'' @ []" "''/x/a'' = ''/x/'' @ ''a'' @ []" by simp_all
  then have "shouldDisplayRoute (ensureSlash ''/'') ''/ba'' ''/a'' False = Some True"
    "shouldDisplayRoute (ensureSlash ''/'') ''/x/a'' ''/a'' False = Some True"
    unfolding shouldDisplayRoute_a by blast+
  then show ?thesis by simp
qed

text \<open>Where the claim and the code agree: \<^verbatim>\<open>/a\<close> and the paths under \<^verbatim>\<open>/a/\<close> are
  displayed, a path without any \<^verbatim>\<open>a\<close> before a boundary is not.\<close>

lemma shouldDisplayRoute_agrees:
  "shouldDisplayRoute (ensureSlash ''/'') ''/a'' ''/a'' False = Some True"
  "shouldDisplayRoute (ensureSlash ''/'') (''/a/'' @ rest) ''/a'' False = Some True"
  "shouldDisplayRoute (ensureSlash ''/'') ''/b'' ''/a'' False = Some False"
proof -
  have "''/a'' = ''/'' @ ''a'' @ []" by simp
  then show "shouldDisplayRoute (ensureSlash ''/'') ''/a'' ''/a'' False = Some True"
    unfolding shouldDisplayRoute_a by blast
  have "''/a/'' @ rest = ''/'' @ ''a'' @ (''/'' @ rest)" "hd (''/'' @ rest) \<in> set ''/?#''" by simp_all
  then show "shouldDisplayRoute (ensureSlash ''/'') (''/a/'' @ rest) ''/a'' False = Some True"
    unfolding shouldDisplayRoute_a by blast
  have "\<nexists>pre post. ''/b'' = pre @ ''a'' @ post \<and> (post = [] \<or> hd post \<in> set ''/?#'')"
  proof
    assume "\<exists>pre post. ''/b'' = pre @ ''a'' @ post \<and> (post = [] \<or> hd post \<in> set ''/?#'')"
    then obtain pre post where "''/b'' = pre @ ''a'' @ post" by blast
    then have "CHR ''a'' \<in> set ''/b''" by (metis append_Cons in_set_conv_decomp)
    then show False by simp
  qed
  then show "shouldDisplayRoute (ensureSlash ''/'') ''/b'' ''/a'' False = Some False"
    unfolding shouldDisplayRoute_a by simp
qed

section \<open>Failures of the renderer\<close>

lemma unsupported_neq: "ErrorStack (unsupported nm) \<noteq> children_undefined"
  by (simp add: unsupported_def children_undefined_def)

lemma renderElement_Object: "renderElement (Object c) d =
   (case c of None \<Rightarrow> Inl (TypeError ''Cannot read properties of undefined (reading 'toString')'')
    | Some nm \<Rightarrow> Inl (ErrorStack (unsupported (if nm \<noteq> [] then nm else ''object''))))"
  by (cases c) auto

text \<open>
  Claim C9, as stated, fails: the empty string is not rejected but rendered as an
  empty text node, and the number \<open>0\<close>, which is not among the accepted shapes, fails
  as a missing child, not as an invalid element type.
\<close>

theorem renderElement_empty_string_counterexample:
  "renderElement (String '''') heap0 = Inr (createTextNode '''' heap0) \<and>
   renderElement (Number 0) heap0 = Inl children_undefined"
  by simp

text \<open>
  Claim C9, amended: for a value that is not a function, \<open>renderElement\<close> fails with
  the missing-child error exactly when the value is a falsy non-string (\<^verbatim>\<open>undefined\<close>,
  \<^verbatim>\<open>null\<close>, \<^verbatim>\<open>false\<close>, \<^verbatim>\<open>0\<close>, \<^verbatim>\<open>NaN\<close>); every string, the empty one included, becomes a
  text node and a node is returned as it is. A truthy number or boolean and an
  object with a constructor fail with the invalid-element-type error naming the
  constructor (\<^verbatim>\<open>Number\<close> for \<^verbatim>\<open>42\<close>) or, when that name is empty, the \<^verbatim>\<open>typeof\<close>; a
  function whose result is not a string and of which \<^verbatim>\<open>isNode\<close> is false fails with
  that error naming the function's own constructor (\<^verbatim>\<open>Function\<close> for an ordinary
  function, \<^verbatim>\<open>AsyncFunction\<close> for an async one) or, when the function has no constructor
  or one with an empty name, \<^verbatim>\<open>function\<close>.
\<close>

theorem renderElement_failures:
  "((\<forall>c f. v \<noteq> Function c f) \<longrightarrow>
      (renderElement v d = Inl children_undefined) = (v \<in> {Undefined, Null, Boolean False, Number 0, NaN})) \<and>
   renderElement (String s) d = Inr (createTextNode s d) \<and>
   renderElement (Node n) d = Inr (n, d) \<and>
   (k \<noteq> 0 \<longrightarrow> renderElement (Number k) d = Inl (ErrorStack (unsupported ''Number''))) \<and>
   renderElement (Boolean True) d = Inl (ErrorStack (unsupported ''Boolean'')) \<and>
   renderElement (Object (Some c)) d = Inl (ErrorStack (unsupported (if c \<noteq> [] then c else ''object''))) \<and>
   (f d = Inr (r, d') \<and> (\<forall>s. r \<noteq> String s) \<and> isNode r = Inr False \<longrightarrow>
      renderElement (Function fc f) d =
        Inl (ErrorStack (unsupported
          (case fc of Some nm \<Rightarrow> if nm \<noteq> [] then nm else ''function'' | None \<Rightarrow> ''function''))))"
proof -
  have a: "(\<forall>c f. v \<noteq> Function c f) \<longrightarrow>
      (renderElement v d = Inl children_undefined) = (v \<in> {Undefined, Null, Boolean False, Number 0, NaN})"
  proof (cases v)
    case (Object c)
    then show ?thesis
      using unsupported_neq by (cases c) (auto simp: children_undefined_def)
  qed (auto simp: children_undefined_def unsupported_def)
  have b: "f d = Inr (r, d') \<and> (\<forall>s. r \<noteq> String s) \<and> isNode r = Inr False \<longrightarrow>
      renderElement (Function fc f) d =
        Inl (ErrorStack (unsupported
          (case fc of Some nm \<Rightarrow> if nm \<noteq> [] then nm else ''function'' | None \<Rightarrow> ''function'')))"
    by (cases r) (auto split: option.splits)
  have c: "k \<noteq> 0 \<longrightarrow> renderElement (Number k) d = Inl (ErrorStack (unsupported ''Number''))"
    by simp
  show ?thesis using a b c by simp
qed

theorem renderElement_failures_witness:
  "renderElement (Number 42) heap0 = Inl (ErrorStack (unsupported ''Number'')) \<and>
   renderElement Undefined heap0 = Inl children_undefined \<and>
   renderElement (Function (Some ''Function'') (\<lambda>d. Inr (Number 42, d))) heap0
     = Inl (ErrorStack (unsupported ''Function'')) \<and>
   renderElement (Function (Some ''AsyncFunction'') (\<lambda>d. Inr (Object (Some ''Promise''), d))) heap0
     = Inl (ErrorStack (unsupported ''AsyncFunction''))"
  using renderElement_failures [where v = Undefined and d = heap0 and k = 42
      and f = "\<lambda>d. Inr (Number 42, d)" and r = "Number 42" and d' = heap0 and fc = "Some ''Function''"]
    renderElement_failures [where v = Undefined and d = heap0 and k = 42
      and f = "\<lambda>d. Inr (Object (Some ''Promise''), d)" and r = "Object (Some ''Promise'')" and d' = heap0
      and fc = "Some ''AsyncFunction''"]
  by simp

section \<open>What the throw statements throw\<close>













section \<open>Notification\<close>

text \<open>An observer leaves the invocation record alone and can only turn slots of the
  \<^verbatim>\<open>observers\<close> array into holes: the array keeps its length, which is why the bound
  of \<open>notify_loop\<close> is enough.\<close>

lemma delete_slot_length: "length (delete_slot key xs) = length xs"
  by (simp add: delete_slot_def split: option.splits)

lemma delete_slot_nth:
  "i < length xs \<Longrightarrow> delete_slot key xs ! i = None \<or> delete_slot key xs ! i = xs ! i"
proof (cases key)
  case None
  then show ?thesis by (simp add: delete_slot_def)
next
  case (Some j)
  assume "i < length xs"
  with Some show ?thesis by (cases "i = j") (simp_all add: delete_slot_def)
qed

lemma observer_body_observers:
  assumes "observer_body p ob a w = Inr w'"
  shows "calls w' = calls w \<and>
    (observers w' = observers w \<or> (\<exists>key. observers w' = (observers w)(p := delete_slot key (observers w p))))"
  using assms
  by (auto simp: observer_body_def Let_def
      split: sum.splits prod.splits if_splits bool.splits jsval.splits)

lemma observer_body_keeps:
  assumes "observer_body p ob a w = Inr w'"
  shows "calls w' = calls w"
    and "length (observers w' q) = length (observers w q)"
    and "i < length (observers w q) \<Longrightarrow> observers w' q ! i = None \<or> observers w' q ! i = observers w q ! i"
proof -
  from observer_body_observers [OF assms]
  have c: "calls w' = calls w"
    and o: "observers w' = observers w \<or> (\<exists>key. observers w' = (observers w)(p := delete_slot key (observers w p)))"
    by simp_all
  show "calls w' = calls w" by (rule c)
  from o show "length (observers w' q) = length (observers w q)"
    by (auto simp: delete_slot_length)
  show "observers w' q ! i = None \<or> observers w' q ! i = observers w q ! i"
    if "i < length (observers w q)"
  proof (cases "q = p")
    case False
    with o show ?thesis by auto
  next
    case True
    from o show ?thesis
    proof
      assume "observers w' = observers w"
      then show ?thesis by simp
    next
      assume "\<exists>key. observers w' = (observers w)(p := delete_slot key (observers w p))"
      then obtain key where "observers w' = (observers w)(p := delete_slot key (observers w p))" by blast
      with True have "observers w' q = delete_slot key (observers w q)" by simp
      with delete_slot_nth [OF that, of key] show ?thesis by simp
    qed
  qed
qed

lemma notify_loop_calls:
  "notify_loop fuel p a i w = Inr w' \<Longrightarrow> length (observers w p) \<le> i + fuel \<Longrightarrow>
   calls w' = calls w @ map (\<lambda>j. (p, j, a)) [i..<length (observers w p)] \<and>
   length (observers w' p) = length (observers w p)"
proof (induction fuel arbitrary: i w)
  case 0
  then show ?case by simp
next
  case (Suc fuel)
  show ?case
  proof (cases "i < length (observers w p)")
    case False
    with Suc.prems show ?thesis by simp
  next
    case True
    with Suc.prems(1) obtain ob w1 where ob: "observers w p ! i = Some ob"
      and b: "observer_body p ob a (w\<lparr>calls := calls w @ [(p, i, a)]\<rparr>) = Inr w1"
      and r: "notify_loop fuel p a (Suc i) w1 = Inr w'"
      by (auto split: option.splits sum.splits)
    from observer_body_keeps(1,2) [OF b]
    have k: "calls w1 = calls w @ [(p, i, a)]" "length (observers w1 p) = length (observers w p)"
      by simp_all
    with Suc.prems(2) have "length (observers w1 p) \<le> Suc i + fuel" by simp
    from Suc.IH [OF r this] k True show ?thesis
      by (simp add: upt_conv_Cons)
  qed
qed

lemma notify_calls:
  assumes "notify t p args w = Inr (ok, w')"
  shows "calls w' = calls w @ map (\<lambda>i. (p, i, args ! 0)) [0..<length (observers w p)]"
proof -
  obtain r d where R: "Reflect t args (hp w) = (r, d)" by (cases "Reflect t args (hp w)") auto
  with assms have l: "notify_loop (length (observers w p)) p (args ! 0) 0 (w\<lparr>hp := d\<rparr>) = Inr w'"
    by (auto simp: notify_def split: sum.splits)
  from notify_loop_calls [OF l] show ?thesis by simp
qed

text \<open>
  Claim C1, as stated, fails: an observer is not handed the assigned value (nor, on a
  delete, the key) but the backing object, the first argument of the trap. Here the
  state \<^verbatim>\<open>{a: 1}\<close> has one observer; \<^verbatim>\<open>s.a = 2\<close> and \<^verbatim>\<open>delete s.a\<close> call it with the
  object.
\<close>

theorem observer_argument_counterexample:
  "(case proxy_set 0 ''a'' (Val (Number 2)) one_rendering of
      Inr (ok, w') \<Rightarrow> calls w' = [(0, 0, ObjRef 0)] \<and> ObjRef 0 \<noteq> Val (Number 2)
    | Inl e \<Rightarrow> False) \<and>
   (case proxy_deleteProperty 0 ''a'' one_rendering of
      Inr (ok, w') \<Rightarrow> calls w' = [(0, 0, ObjRef 0)] \<and> ObjRef 0 \<noteq> Val (String ''a'')
    | Inl e \<Rightarrow> False)"
  by code_simp

text \<open>
  Claim C1, amended: whenever an assignment \<^verbatim>\<open>s[k] = v\<close> through the proxy completes
  without an exception, the mutation has been performed first (for \<open>k\<close> other than
  the hidden \<^verbatim>\<open>_fn_state_info\<close>) and then every slot of the \<^verbatim>\<open>observers\<close> array has been
  called exactly once, in registration order, with the backing object (the whole
  object, after the mutation) as its sole argument; likewise for \<^verbatim>\<open>delete s[k]\<close>, whose
  observers also receive the backing object.
\<close>

theorem proxy_notifies_with_target:
  "(proxy_set p k v w = Inr (ok, w') \<longrightarrow>
      calls w' = calls w @ map (\<lambda>i. (p, i, ObjRef p)) [0..<length (observers w p)] \<and>
      (k \<noteq> fn_state_info \<longrightarrow> ok \<and>
         notify_loop (length (observers w p)) p (ObjRef p) 0
           (w\<lparr>hp := (hp w)\<lparr>objects := (objects (hp w))(p := AList.update k v (objects (hp w) p))\<rparr>\<rparr>) = Inr w')) \<and>
   (proxy_deleteProperty p k w = Inr (ok, w') \<longrightarrow>
      calls w' = calls w @ map (\<lambda>i. (p, i, ObjRef p)) [0..<length (observers w p)] \<and>
      (k \<noteq> fn_state_info \<longrightarrow> ok \<and>
         notify_loop (length (observers w p)) p (ObjRef p) 0
           (w\<lparr>hp := (hp w)\<lparr>objects := (objects (hp w))(p := AList.delete k (objects (hp w) p))\<rparr>\<rparr>) = Inr w'))"
proof (intro conjI impI)
  assume a: "proxy_set p k v w = Inr (ok, w')"
  from notify_calls [OF a [unfolded proxy_set_def]]
  show "calls w' = calls w @ map (\<lambda>i. (p, i, ObjRef p)) [0..<length (observers w p)]" by simp
  assume "k \<noteq> fn_state_info"
  with a show "ok" by (auto simp: proxy_set_def notify_def split: sum.splits)
  from a \<open>k \<noteq> fn_state_info\<close> show "notify_loop (length (observers w p)) p (ObjRef p) 0
      (w\<lparr>hp := (hp w)\<lparr>objects := (objects (hp w))(p := AList.update k v (objects (hp w) p))\<rparr>\<rparr>) = Inr w'"
    by (auto simp: proxy_set_def notify_def split: sum.splits)
next
  assume a: "proxy_deleteProperty p k w = Inr (ok, w')"
  from notify_calls [OF a [unfolded proxy_deleteProperty_def]]
  show "calls w' = calls w @ map (\<lambda>i. (p, i, ObjRef p)) [0..<length (observers w p)]" by simp
  assume "k \<noteq> fn_state_info"
  with a show "ok" by (auto simp: proxy_deleteProperty_def notify_def split: sum.splits)
  from a \<open>k \<noteq> fn_state_info\<close> show "notify_loop (length (observers w p)) p (ObjRef p) 0
      (w\<lparr>hp := (hp w)\<lparr>objects := (objects (hp w))(p := AList.delete k (objects (hp w) p))\<rparr>\<rparr>) = Inr w'"
    by (auto simp: proxy_deleteProperty_def notify_def split: sum.splits)
qed

lemma two_patching_facts:
  "calls two_patching = []" "length (observers two_patching 0) = 2"
  "(case proxy_set 0 ''a'' (Val (Number 7)) two_patching of Inr x \<Rightarrow> True | Inl e \<Rightarrow> False)"
  "(case proxy_deleteProperty 0 ''a'' two_patching of Inr x \<Rightarrow> True | Inl e \<Rightarrow> False)"
  by code_simp+

theorem proxy_notifies_with_target_witness:
  "(case proxy_set 0 ''a'' (Val (Number 7)) two_patching of
      Inr (ok, w') \<Rightarrow> ok \<and> calls w' = [(0, 0, ObjRef 0), (0, 1, ObjRef 0)]
    | Inl e \<Rightarrow> False) \<and>
   (case proxy_deleteProperty 0 ''a'' two_patching of
      Inr (ok, w') \<Rightarrow> ok \<and> calls w' = [(0, 0, ObjRef 0), (0, 1, ObjRef 0)]
    | Inl e \<Rightarrow> False)"
proof -
  have k: "''a'' \<noteq> fn_state_info" by (simp add: fn_state_info_def)
  have u: "[0..<2] = [0, Suc 0]" by (simp add: upt_rec)
  obtain ok w' where s: "proxy_set 0 ''a'' (Val (Number 7)) two_patching = Inr (ok, w')"
    using two_patching_facts(3) by (auto split: sum.splits)
  obtain ok2 w2 where d: "proxy_deleteProperty 0 ''a'' two_patching = Inr (ok2, w2)"
    using two_patching_facts(4) by (auto split: sum.splits)
  from proxy_notifies_with_target [of 0 "''a''" "Val (Number 7)" two_patching ok w'] s k
  have 1: "ok \<and> calls w' = [(0, 0, ObjRef 0), (0, 1, ObjRef 0)]"
    by (simp add: two_patching_facts u)
  from proxy_notifies_with_target [of 0 "''a''" "Val (Number 7)" two_patching ok2 w2] d k
  have 2: "ok2 \<and> calls w2 = [(0, 0, ObjRef 0), (0, 1, ObjRef 0)]"
    by (simp add: two_patching_facts u)
  from 1 2 s d show ?thesis by simp
qed

text \<open>The assignment need not complete: after \<^verbatim>\<open>fnbind([s, s], f)\<close> with \<open>f\<close> building a
  new element, the first assignment turns the second slot into a hole (line 86 deletes
  the slot whose index is the old node's id), and the next assignment throws a
  TypeError at the hole.\<close>

lemma notify_hole_example:
  "(case proxy_set 0 ''a'' (Val (Number 2)) bound_twice of
      Inr (ok, w1) \<Rightarrow>
        map (\<lambda>x. x = None) (observers w1 0) = [False, True] \<and>
        (case proxy_set 0 ''a'' (Val (Number 3)) w1 of
           Inl e \<Rightarrow> e = TypeError ''observer is not a function''
         | Inr x \<Rightarrow> False)
    | Inl e \<Rightarrow> False)"
  by code_simp

section \<open>Reset\<close>

text \<open>Reinitializing assigns to every property the value it already has: the object
  \<^verbatim>\<open>Object.assign\<close> reads from is the backing object itself.\<close>

lemma proxy_set_same_value:
  assumes "observers w p = []" "map_of (objects (hp w) p) k = Some v" "k \<noteq> fn_state_info"
  shows "proxy_set p k v w = Inr (True, w)"
proof -
  have "AList.update k v (objects (hp w) p) = objects (hp w) p"
    using assms(2) by (rule update_triv)
  then show ?thesis
    using assms(1,3) by (simp add: proxy_set_def notify_def)
qed

lemma assign_loop_same:
  assumes "observers w p = []" "fn_state_info \<notin> fst ` set (objects (hp w) p)"
  shows "assign_loop ks p w = Inr w"
proof (induction ks)
  case Nil
  show ?case by simp
next
  case (Cons k ks)
  show ?case
  proof (cases "map_of (objects (hp w) p) k")
    case None
    with Cons show ?thesis by simp
  next
    case (Some v)
    then have "k \<in> fst ` set (objects (hp w) p)" by (force dest: map_of_SomeD)
    with assms(2) have "k \<noteq> fn_state_info" by blast
    from proxy_set_same_value [OF assms(1) Some this] Some Cons show ?thesis by simp
  qed
qed

lemma reset_reinit_changes_nothing:
  assumes "fn_state_info \<notin> fst ` set (objects (hp w) p)"
  shows "reset p True w = Inr (w\<lparr>observers := (observers w)(p := [])\<rparr>)"
  using assign_loop_same [of "w\<lparr>observers := (observers w)(p := [])\<rparr>" p] assms
  by (simp add: reset_def)

text \<open>
  Claim C2, at a failing input: \<^verbatim>\<open>s = fnstate({a: 1})\<close> with one binding, \<^verbatim>\<open>s.a = 2\<close>,
  then \<^verbatim>\<open>resetState(s, true)\<close>. The observer list is emptied and nothing is notified,
  but \<^verbatim>\<open>a\<close> is still \<open>2\<close>: the initial value \<open>1\<close> is not restored.
\<close>

theorem reset_keeps_values:
  "(case proxy_set 0 ''a'' (Val (Number 2)) one_rendering of
      Inr (ok, w1) \<Rightarrow>
        (case resetState (ProxyRef 0) True w1 of
           Inr w2 \<Rightarrow>
             objects (hp one_rendering) 0 = [(''a'', Val (Number 1))] \<and>
             objects (hp w1) 0 = [(''a'', Val (Number 2))] \<and>
             objects (hp w2) 0 = [(''a'', Val (Number 2))] \<and>
             length (observers w1 0) = 1 \<and> length (observers w2 0) = 0 \<and> calls w2 = calls w1
         | Inl e \<Rightarrow> False)
    | Inl e \<Rightarrow> False)"
  by code_simp

section \<open>Tagging at registration\<close>

lemma addObserver_tags_handle:
  "nodes (hp (addObserver p el element update w)) = nodes (hp w) \<and>
   current (handles (hp (addObserver p el element update w)) el) = current (handles (hp w) el) \<and>
   handle_info (handles (hp (addObserver p el element update w)) el) \<noteq> None"
  by (simp add: addObserver_def tagElement_handle_def)

text \<open>
  Claim C5, at a failing input: after \<^verbatim>\<open>fnbind(s, f)\<close> on a new state, which calls
  \<^verbatim>\<open>addObserver\<close> once, the observer is registered and the handle object carries the
  tag (id \<open>0\<close>), but the node the handle tracks, \<^verbatim>\<open>handle.current\<close>, carries none.
\<close>

theorem addObserver_current_untagged:
  "length (observers one_rendering 0) = 1 \<and>
   handle_info (handles (hp one_rendering) 0) = Some 0 \<and>
   \<not> isTagged (current (handles (hp one_rendering) 0)) (hp one_rendering)"
  by code_simp

section \<open>The accessor of a binding\<close>

text \<open>
  Claim C4, as stated, fails: for a binding to the render function \<open>text_x\<close>, two
  calls of the accessor with no notification between them return two different
  text nodes.
\<close>

theorem accessor_counterexample:
  "(case fnbind label (ProxyRef 0) text_x Undefined one_state of
      Inr (acc, w) \<Rightarrow>
        (case accessor_call acc (hp w) of
           Inr (n1, d1) \<Rightarrow>
             (case accessor_call acc d1 of Inr (n2, d2) \<Rightarrow> n1 \<noteq> n2 | Inl e \<Rightarrow> False)
         | Inl e \<Rightarrow> False)
    | Inl e \<Rightarrow> False)"
  by code_simp

text \<open>
  Claim C4, amended: for a binding to a node (with its update function) the accessor
  returns that node at every call. For a binding to a render function every call of
  the accessor calls the function again and returns the node rendered from its
  result: two calls return the same node only if the function returns the same
  node both times.
\<close>

theorem accessor_returns:
  "fnbind ts state element update w = Inr (acc, w') \<longrightarrow>
     (\<exists>el b. acc = Accessor el b state \<and>
        (\<forall>n. element = Node n \<longrightarrow>
           (\<forall>d. accessor_call acc d = Inr (n, set_current el n d))) \<and>
        (\<forall>c f. element = Function c f \<longrightarrow>
           (\<forall>d. accessor_call acc d =
              (case f state d of
                 Inl e \<Rightarrow> Inl e
               | Inr (v, d1) \<Rightarrow>
                   (case renderElement v d1 of
                      Inl e \<Rightarrow> Inl e
                    | Inr (m, d2) \<Rightarrow> Inr (m, set_current el m d2))))))"
proof
  assume a: "fnbind ts state element update w = Inr (acc, w')"
  then obtain b where b: "bind_target element = Inr (Some b)"
    by (auto simp: fnbind_def split: sum.splits option.splits)
  with a obtain el where acc: "acc = Accessor el b state"
    by (auto simp: fnbind_def Let_def split: sum.splits option.splits if_splits prod.splits)
  have "\<forall>n. element = Node n \<longrightarrow> (\<forall>d. accessor_call acc d = Inr (n, set_current el n d))"
    using b acc by auto
  moreover have "\<forall>c f. element = Function c f \<longrightarrow>
           (\<forall>d. accessor_call acc d =
              (case f state d of
                 Inl e \<Rightarrow> Inl e
               | Inr (v, d1) \<Rightarrow>
                   (case renderElement v d1 of
                      Inl e \<Rightarrow> Inl e
                    | Inr (m, d2) \<Rightarrow> Inr (m, set_current el m d2))))"
    using b acc by (auto split: sum.splits)
  ultimately show "\<exists>el b. acc = Accessor el b state \<and>
        (\<forall>n. element = Node n \<longrightarrow>
           (\<forall>d. accessor_call acc d = Inr (n, set_current el n d))) \<and>
        (\<forall>c f. element = Function c f \<longrightarrow>
           (\<forall>d. accessor_call acc d =
              (case f state d of
                 Inl e \<Rightarrow> Inl e
               | Inr (v, d1) \<Rightarrow>
                   (case renderElement v d1 of
                      Inl e \<Rightarrow> Inl e
                    | Inr (m, d2) \<Rightarrow> Inr (m, set_current el m d2)))))"
    using acc by blast
qed

lemma input_binding_facts:
  "(case fnbind label (ProxyRef 0) (Node 0) patch_in_place with_input of Inr x \<Rightarrow> True | Inl e \<Rightarrow> False)"
  by code_simp

theorem accessor_returns_witness:
  "(case fnbind label (ProxyRef 0) (Node 0) patch_in_place with_input of
      Inr (acc, w') \<Rightarrow>
        (case accessor_call acc (hp w') of
           Inr (n1, d1) \<Rightarrow>
             (case accessor_call acc d1 of Inr (n2, d2) \<Rightarrow> n1 = 0 \<and> n2 = 0 | Inl e \<Rightarrow> False)
         | Inl e \<Rightarrow> False)
    | Inl e \<Rightarrow> False)"
proof -
  obtain acc w' where f: "fnbind label (ProxyRef 0) (Node 0) patch_in_place with_input = Inr (acc, w')"
    using input_binding_facts by (auto split: sum.splits)
  from accessor_returns [of label "ProxyRef 0" "Node 0" patch_in_place with_input acc w'] f
  obtain el where "\<forall>d. accessor_call acc d = Inr (0, set_current el 0 d)" by auto
  with f show ?thesis by simp
qed

section \<open>Replacement of the bound node\<close>



lemma tagElement_keeps:
  "kids (nodes (tagElement n d) q) = kids (nodes d q)"
  "next_node (tagElement n d) = next_node d"
  "handles (tagElement n d) = handles d"
  by (simp_all add: tagElement_def)

lemma parent_of_tagElement: "parent_of (tagElement n d) c = parent_of d c"
  by (simp add: parent_of_def tagElement_keeps)



lemma replaceWith_no_parent: "parent_of d old = None \<Longrightarrow> replaceWith old new d = Inr d"
  by (simp add: replaceWith_def)








text \<open>The observer completes whenever the DOM accepts the replacement, that is, unless
  the new node is the old node's parent or one of its ancestors.\<close>

lemma inclusive_ancestor_tagElement:
  "inclusive_ancestor k (tagElement m d) a n = inclusive_ancestor k d a n"
  by (induction k arbitrary: n) (auto simp: parent_of_tagElement split: option.splits)

lemma observer_body_completes:
  assumes "compute_newElement ob a (hp w) = Inr (Node n, d1)"
    and "\<forall>par. parent_of d1 (current (handles d1 (obs_el ob))) = Some par \<longrightarrow>
           \<not> inclusive_ancestor (next_node d1) d1 n par"
  shows "\<exists>w'. observer_body p ob a w = Inr w'"
proof -
  define d2 where "d2 = (if \<not> isTagged n d1 then tagElement n d1 else d1)"
  define cur where "cur = current (handles d2 (obs_el ob))"
  have c: "cur = current (handles d1 (obs_el ob))" by (simp add: cur_def d2_def tagElement_keeps)
  have "\<exists>d3. replaceWith cur n d2 = Inr d3"
  proof (cases "parent_of d2 cur")
    case None
    then show ?thesis by (simp add: replaceWith_no_parent)
  next
    case (Some par)
    then have "parent_of d1 cur = Some par" by (simp add: d2_def parent_of_tagElement split: if_splits)
    with assms(2) c have "\<not> inclusive_ancestor (next_node d1) d1 n par" by simp
    then have "\<not> inclusive_ancestor (next_node d2) d2 n par"
      by (simp add: d2_def tagElement_keeps inclusive_ancestor_tagElement)
    with Some show ?thesis by (simp add: replaceWith_def)
  qed
  then obtain d3 where "replaceWith cur n d2 = Inr d3" by blast
  with assms(1) show ?thesis
    by (simp add: observer_body_def Let_def d2_def [symmetric] cur_def [symmetric])
qed

section \<open>First match in the route switch\<close>







end
